theory Spec2Isabelle
  imports Complex_Main "HOL-Library.Sublist" "HOL-Library.Multiset"
begin

section \<open>Data model\<close>

text \<open>
  A JavaScript string is a sequence of UTF-16 code units. A number of the source
  (a bid amount, a budget, an auction value) is modelled by the real value of the
  finite double that holds it; counters and array indices are naturals. The
  subtraction of a bid from a budget is modelled by the exact subtraction.
\<close>

type_synonym jsstring = "nat list"

definition lit :: "string \<Rightarrow> jsstring" where
  "lit s = map of_char s"

text \<open>\<^verbatim>\<open>interface DraftTeam\<close> of the draft-sync route.\<close>

record DraftTeam =
  name :: jsstring
  budget :: real
  isMyTeam :: bool

text \<open>\<^verbatim>\<open>interface SyncedPick\<close>; an absent \<^verbatim>\<open>draftedByTeam\<close> is \<open>None\<close>.\<close>

record SyncedPick =
  playerName :: jsstring
  teamName :: jsstring
  pickNumber :: nat
  bidAmount :: real
  isMyPick :: bool
  draftedByTeam :: "jsstring option"

text \<open>
  The object kept in the cache file of one league. The \<^verbatim>\<open>syncedAt\<close> time stamp is
  left out: no operation reads it. \<^verbatim>\<open>myTeamBudget\<close> is \<open>None\<close> in a file written
  without that field (the "legacy" case of the source).
\<close>

record CacheData =
  picks :: "SyncedPick list"
  teams :: "DraftTeam list"
  totalPicks :: nat
  isComplete :: bool
  myTeamBudget :: "real option"

text \<open>The cache directory: one optional record per league id.\<close>

type_synonym store = "jsstring \<Rightarrow> CacheData option"

text \<open>The JSON body of a PUT request, after destructuring
  (\<^verbatim>\<open>isMyPick = false\<close> is the default of the destructuring pattern).\<close>

record PutRequest =
  rq_playerName :: "jsstring option"
  rq_bidAmount :: "real option"
  rq_isMyPick :: bool
  rq_draftedByTeam :: "jsstring option"

record PutResponse =
  pr_pick :: SyncedPick
  pr_totalPicks :: nat
  pr_myTeamBudget :: real

text \<open>A pick as GET returns it (\<^verbatim>\<open>transformedPicks\<close>).\<close>

record DraftPick =
  dp_playerId :: nat
  dp_playerName :: jsstring
  dp_teamId :: nat
  dp_pickNumber :: nat
  dp_round :: nat
  dp_bidAmount :: real
  dp_isMyPick :: bool
  dp_draftedByTeam :: "jsstring option"

record GetResponse =
  r_picks :: "DraftPick list"
  r_teams :: "DraftTeam list"
  r_currentPick :: nat
  r_totalPicks :: nat
  r_isComplete :: bool
  r_synced :: bool
  r_myTeamBudget :: real
  r_teamsConfigured :: bool

text \<open>The responses with status 400 of the route.\<close>

datatype error = Error400

section \<open>The draft-sync route\<close>

text \<open>A string is truthy when it is present and not empty.\<close>

definition truthy :: "jsstring option \<Rightarrow> bool" where
  "truthy s = (case s of None \<Rightarrow> False | Some v \<Rightarrow> v \<noteq> [])"

text \<open>\<^verbatim>\<open>Array.prototype.findIndex\<close>, with \<open>None\<close> for \<open>-1\<close>.\<close>

fun findIndex :: "('a \<Rightarrow> bool) \<Rightarrow> 'a list \<Rightarrow> nat option" where
  "findIndex P [] = None"
| "findIndex P (x # xs) = (if P x then Some 0 else map_option Suc (findIndex P xs))"

text \<open>\<^verbatim>\<open>team.budget || 200\<close>: a budget of zero is falsy.\<close>

definition initTeam :: "DraftTeam \<Rightarrow> DraftTeam" where
  "initTeam team =
     \<lparr>name = name team,
      budget = (if budget team = 0 then 200 else budget team),
      isMyTeam = isMyTeam team\<rparr>"

text \<open>
  POST, "Initialize teams for the draft". The body's \<^verbatim>\<open>teams\<close> is \<open>None\<close> when
  it is missing or not an array. The result is the response and the new store.
\<close>

definition POST :: "store \<Rightarrow> jsstring \<Rightarrow> DraftTeam list option \<Rightarrow> (error + DraftTeam list) \<times> store" where
  "POST st leagueId body =
     (case body of
        None \<Rightarrow> (Inl Error400, st)
      | Some ts \<Rightarrow>
          (let cacheData =
                 \<lparr>picks = [],
                  teams = map initTeam ts,
                  totalPicks = 130,
                  isComplete = False,
                  myTeamBudget = Some 200\<rparr>
           in (Inr (teams cacheData), st(leagueId \<mapsto> cacheData))))"

text \<open>The literal that PUT uses when the league has no cache file.\<close>

definition defaultData :: CacheData where
  "defaultData =
     \<lparr>picks = [], teams = [], totalPicks = 130, isComplete = False, myTeamBudget = Some 200\<rparr>"

text \<open>\<^verbatim>\<open>if (existingData.myTeamBudget === undefined) existingData.myTeamBudget = 200\<close>\<close>

definition legacyBudget :: "CacheData \<Rightarrow> real" where
  "legacyBudget d = (case myTeamBudget d of None \<Rightarrow> 200 | Some b \<Rightarrow> b)"

text \<open>
  The block "Find the team and deduct from their budget" of PUT, on the loaded data
  (whose \<^verbatim>\<open>myTeamBudget\<close> has been defaulted before).
\<close>

definition deductBudget :: "CacheData \<Rightarrow> jsstring option \<Rightarrow> bool \<Rightarrow> real \<Rightarrow> CacheData" where
  "deductBudget existingData draftedByTeam' isMyPick' bidAmount' =
     (if truthy draftedByTeam' \<and> 0 < length (teams existingData) then
        (case findIndex (\<lambda>t. Some (name t) = draftedByTeam') (teams existingData) of
           None \<Rightarrow> existingData
         | Some teamIndex \<Rightarrow>
             (let t = teams existingData ! teamIndex;
                  d1 = existingData
                         \<lparr>teams := (teams existingData)[teamIndex := t\<lparr>budget := budget t - bidAmount'\<rparr>]\<rparr>
              in if isMyTeam t
                 then d1\<lparr>myTeamBudget := Some (legacyBudget d1 - bidAmount')\<rparr>
                 else d1))
      else if isMyPick' then
        existingData\<lparr>myTeamBudget := Some (legacyBudget existingData - bidAmount')\<rparr>
      else existingData)"

text \<open>The object literal \<^verbatim>\<open>newPick\<close> of PUT.\<close>

definition newPick :: "CacheData \<Rightarrow> jsstring \<Rightarrow> real \<Rightarrow> bool \<Rightarrow> jsstring option \<Rightarrow> SyncedPick" where
  "newPick existingData playerName' bidAmount' isMyPick' draftedByTeam' =
     \<lparr>playerName = playerName',
      teamName = (if isMyPick' then lit ''My Team'' else lit ''Manual''),
      pickNumber = length (picks existingData) + 1,
      bidAmount = bidAmount',
      isMyPick = isMyPick',
      draftedByTeam =
        (if truthy draftedByTeam' then draftedByTeam'
         else if isMyPick' then Some (lit ''My Team'') else None)\<rparr>"

text \<open>The request check of PUT: \<^verbatim>\<open>!playerName || bidAmount === undefined\<close>.\<close>

definition rejected :: "PutRequest \<Rightarrow> bool" where
  "rejected rq = (\<not> truthy (rq_playerName rq) \<or> rq_bidAmount rq = None)"

text \<open>PUT, "Add a single pick manually".\<close>

definition PUT :: "store \<Rightarrow> jsstring \<Rightarrow> PutRequest \<Rightarrow> (error + PutResponse) \<times> store" where
  "PUT st leagueId rq =
     (if rejected rq then (Inl Error400, st)
      else
        (let playerName' = the (rq_playerName rq);
             bidAmount' = the (rq_bidAmount rq);
             loaded = (case st leagueId of None \<Rightarrow> defaultData | Some d \<Rightarrow> d);
             d0 = loaded\<lparr>myTeamBudget := Some (legacyBudget loaded)\<rparr>;
             d1 = deductBudget d0 (rq_draftedByTeam rq) (rq_isMyPick rq) bidAmount';
             pick = newPick d1 playerName' bidAmount' (rq_isMyPick rq) (rq_draftedByTeam rq);
             d2 = d1\<lparr>picks := picks d1 @ [pick]\<rparr>
         in (Inr \<lparr>pr_pick = pick,
                  pr_totalPicks = length (picks d2),
                  pr_myTeamBudget = legacyBudget d2\<rparr>,
             st(leagueId \<mapsto> d2))))"

text \<open>One element of \<^verbatim>\<open>transformedPicks\<close>:
  \<^verbatim>\<open>pick.pickNumber || index + 1\<close> and \<^verbatim>\<open>Math.floor(index / 10) + 1\<close>.\<close>

definition transformPick :: "nat \<Rightarrow> SyncedPick \<Rightarrow> DraftPick" where
  "transformPick index pick =
     \<lparr>dp_playerId = index + 1,
      dp_playerName = playerName pick,
      dp_teamId = 0,
      dp_pickNumber = (if pickNumber pick = 0 then index + 1 else pickNumber pick),
      dp_round = index div 10 + 1,
      dp_bidAmount = bidAmount pick,
      dp_isMyPick = isMyPick pick,
      dp_draftedByTeam = draftedByTeam pick\<rparr>"

definition transformedPicks :: "SyncedPick list \<Rightarrow> DraftPick list" where
  "transformedPicks ps = map (\<lambda>(index, pick). transformPick index pick) (enumerate 0 ps)"

text \<open>GET. The default response has no \<^verbatim>\<open>teamsConfigured\<close> field, which the
  caller reads as false.\<close>

definition GET :: "store \<Rightarrow> jsstring \<Rightarrow> GetResponse" where
  "GET st leagueId =
     (case st leagueId of
        None \<Rightarrow>
          \<lparr>r_picks = [], r_teams = [], r_currentPick = 1, r_totalPicks = 130,
           r_isComplete = False, r_synced = False, r_myTeamBudget = 200,
           r_teamsConfigured = False\<rparr>
      | Some cachedData \<Rightarrow>
          \<lparr>r_picks = transformedPicks (picks cachedData),
           r_teams = teams cachedData,
           r_currentPick = length (transformedPicks (picks cachedData)) + 1,
           r_totalPicks = totalPicks cachedData,
           r_isComplete = isComplete cachedData,
           r_synced = True,
           r_myTeamBudget = legacyBudget cachedData,
           r_teamsConfigured = (0 < length (teams cachedData))\<rparr>)"

text \<open>DELETE, "Reset draft": the cache file is removed if it exists.\<close>

definition DELETE :: "store \<Rightarrow> jsstring \<Rightarrow> store" where
  "DELETE st leagueId = st(leagueId := None)"

text \<open>Sequential PUT requests on one league, each on the store the previous one left.\<close>

fun addPicks :: "store \<Rightarrow> jsstring \<Rightarrow> PutRequest list \<Rightarrow> store" where
  "addPicks st leagueId [] = st"
| "addPicks st leagueId (rq # rqs) = addPicks (snd (PUT st leagueId rq)) leagueId rqs"

text \<open>The picks stored for a league (none when there is no cache file).\<close>

definition storedPicks :: "store \<Rightarrow> jsstring \<Rightarrow> SyncedPick list" where
  "storedPicks st leagueId = (case st leagueId of None \<Rightarrow> [] | Some d \<Rightarrow> picks d)"



section \<open>The merge script\<close>

text \<open>
  \<^verbatim>\<open>String.prototype.toLowerCase\<close> and \<^verbatim>\<open>String.prototype.normalize('NFD')\<close>
  belong to the JavaScript runtime, not to the repository: the functions below take
  them as the parameters \<open>toLowerCase\<close> and \<open>normalizeNFD\<close>.
\<close>

text \<open>The class \<^verbatim>\<open>\s\<close> of a regular expression, which is also what
  \<^verbatim>\<open>trim\<close> strips: white space and line terminators.\<close>

definition isSpace :: "nat \<Rightarrow> bool" where
  "isSpace c =
     (c = 9 \<or> c = 10 \<or> c = 11 \<or> c = 12 \<or> c = 13 \<or> c = 32 \<or> c = 160 \<or> c = 5760 \<or>
      (8192 \<le> c \<and> c \<le> 8202) \<or> c = 8232 \<or> c = 8233 \<or> c = 8239 \<or> c = 8287 \<or>
      c = 12288 \<or> c = 65279)"

definition trim :: "jsstring \<Rightarrow> jsstring" where
  "trim s = rev (dropWhile isSpace (rev (dropWhile isSpace s)))"

text \<open>\<^verbatim>\<open>normalizeName\<close>: lower case, decompose, remove the combining marks
  U+0300 to U+036F, remove what is neither a letter a-z nor white space, trim.\<close>

definition normalizeName ::
  "(jsstring \<Rightarrow> jsstring) \<Rightarrow> (jsstring \<Rightarrow> jsstring) \<Rightarrow> jsstring \<Rightarrow> jsstring" where
  "normalizeName toLowerCase normalizeNFD nm =
     trim
       (filter (\<lambda>c. (97 \<le> c \<and> c \<le> 122) \<or> isSpace c)
          (filter (\<lambda>c. \<not> (768 \<le> c \<and> c \<le> 879))
             (normalizeNFD (toLowerCase nm))))"

text \<open>A record of \<^verbatim>\<open>draft-data.json\<close> (the ESPN scrape).\<close>

record EspnPlayer =
  e_name :: jsstring
  e_team :: jsstring
  e_position :: jsstring
  e_avgAuctionValue :: real
  e_headshotUrl :: jsstring

text \<open>A record of \<^verbatim>\<open>yahoo-draft-data.json\<close>.\<close>

record YahooPlayer =
  y_name :: jsstring
  y_yahooAuctionValue :: real

text \<open>A record of \<^verbatim>\<open>merged-draft-data.json\<close>, which the tracker reads as its
  \<^verbatim>\<open>Player\<close>; \<^verbatim>\<open>yahooAuctionValue\<close> is \<open>None\<close> for \<^verbatim>\<open>null\<close>.\<close>

record Player =
  p_name :: jsstring
  p_team :: jsstring
  p_position :: jsstring
  avgAuctionValue :: real
  headshotUrl :: jsstring
  espnAuctionValue :: real
  yahooAuctionValue :: "real option"

text \<open>
  The sum, product and quotient of two numbers are the exact results rounded to a
  double by the runtime. The functions below take this rounding as the parameter
  \<open>fl\<close>; \<open>binary64\<close> further down is the rounding of IEEE 754.
\<close>

text \<open>\<^verbatim>\<open>Math.round\<close>: the nearest integer, a tie going up.\<close>

definition Math_round :: "real \<Rightarrow> real" where
  "Math_round x = of_int \<lfloor>x + 1 / 2\<rfloor>"

text \<open>"Create a map of Yahoo players by normalized name": each record overwrites
  the entry of its key.\<close>

definition yahooMap ::
  "(jsstring \<Rightarrow> jsstring) \<Rightarrow> (jsstring \<Rightarrow> jsstring) \<Rightarrow> YahooPlayer list \<Rightarrow> (jsstring \<Rightarrow> real option)" where
  "yahooMap toLowerCase normalizeNFD yahooData =
     fold (\<lambda>player m. m(normalizeName toLowerCase normalizeNFD (y_name player) \<mapsto> y_yahooAuctionValue player))
       yahooData Map.empty"

text \<open>The body of \<^verbatim>\<open>draftData.forEach\<close>: the record pushed for one player.\<close>

definition mergePlayer ::
  "(real \<Rightarrow> real) \<Rightarrow> (jsstring \<Rightarrow> jsstring) \<Rightarrow> (jsstring \<Rightarrow> jsstring) \<Rightarrow>
     (jsstring \<Rightarrow> real option) \<Rightarrow> EspnPlayer \<Rightarrow> Player" where
  "mergePlayer fl toLowerCase normalizeNFD ymap player =
     (case ymap (normalizeName toLowerCase normalizeNFD (e_name player)) of
        Some yahooValue \<Rightarrow>
          (let avgValue = fl (fl (e_avgAuctionValue player + yahooValue) / 2)
           in \<lparr>p_name = e_name player, p_team = e_team player, p_position = e_position player,
               avgAuctionValue = fl (Math_round (fl (avgValue * 10)) / 10),
               headshotUrl = e_headshotUrl player,
               espnAuctionValue = e_avgAuctionValue player,
               yahooAuctionValue = Some yahooValue\<rparr>)
      | None \<Rightarrow>
          \<lparr>p_name = e_name player, p_team = e_team player, p_position = e_position player,
           avgAuctionValue = e_avgAuctionValue player,
           headshotUrl = e_headshotUrl player,
           espnAuctionValue = e_avgAuctionValue player,
           yahooAuctionValue = None\<rparr>)"

text \<open>\<^verbatim>\<open>mergedData\<close> after the loop, in the order of \<^verbatim>\<open>draftData\<close>.\<close>

definition mergedData ::
  "(real \<Rightarrow> real) \<Rightarrow> (jsstring \<Rightarrow> jsstring) \<Rightarrow> (jsstring \<Rightarrow> jsstring) \<Rightarrow>
     EspnPlayer list \<Rightarrow> YahooPlayer list \<Rightarrow> Player list" where
  "mergedData fl toLowerCase normalizeNFD draftData yahooData =
     map (mergePlayer fl toLowerCase normalizeNFD (yahooMap toLowerCase normalizeNFD yahooData)) draftData"

text \<open>
  The whole script, which the specification calls \<open>reconcile\<close>: the merge, then
  \<^verbatim>\<open>mergedData.sort((a, b) => b.avgAuctionValue - a.avgAuctionValue)\<close>.
  \<^verbatim>\<open>Array.prototype.sort\<close> is stable; it is modelled by the stable insertion sort
  of the library on the negated key.
\<close>

definition reconcile ::
  "(real \<Rightarrow> real) \<Rightarrow> (jsstring \<Rightarrow> jsstring) \<Rightarrow> (jsstring \<Rightarrow> jsstring) \<Rightarrow>
     EspnPlayer list \<Rightarrow> YahooPlayer list \<Rightarrow> Player list" where
  "reconcile fl toLowerCase normalizeNFD draftData yahooData =
     sort_key (\<lambda>p. - avgAuctionValue p) (mergedData fl toLowerCase normalizeNFD draftData yahooData)"

section \<open>Available players\<close>

text \<open>\<^verbatim>\<open>String.prototype.includes\<close>: the needle occurs at some position of the
  string.\<close>

fun includes_js :: "jsstring \<Rightarrow> jsstring \<Rightarrow> bool" where
  "includes_js [] needle = (needle = [])"
| "includes_js (c # cs) needle = (prefix needle (c # cs) \<or> includes_js cs needle)"

text \<open>\<^verbatim>\<open>availablePlayers\<close> of the tracker page: the players of the catalogue
  that no pick matches.\<close>

definition availablePlayers ::
  "(jsstring \<Rightarrow> jsstring) \<Rightarrow> Player list \<Rightarrow> DraftPick list \<Rightarrow> Player list" where
  "availablePlayers toLowerCase allPlayers dpicks =
     filter
       (\<lambda>p. \<not> list_ex
                (\<lambda>pick. includes_js (toLowerCase (dp_playerName pick)) (toLowerCase (p_name p)) \<or>
                        includes_js (toLowerCase (p_name p)) (toLowerCase (dp_playerName pick)))
                dpicks)
       allPlayers"

section \<open>The rounding of the runtime\<close>

text \<open>The nearest integer, a tie going to the even one.\<close>

definition roundEven :: "real \<Rightarrow> int" where
  "roundEven x =
     (let n = \<lfloor>x\<rfloor>; r = x - of_int n
      in if r < 1 / 2 then n else if 1 / 2 < r then n + 1 else if even n then n else n + 1)"

text \<open>The binary exponent of a positive real: the \<open>e\<close> with \<open>2^e \<le> a < 2^(e+1)\<close>,
  found by at most \<open>n\<close> doublings or halvings.\<close>

fun exponent :: "nat \<Rightarrow> real \<Rightarrow> int" where
  "exponent 0 a = 0"
| "exponent (Suc n) a =
     (if a < 1 then exponent n (2 * a) - 1
      else if 2 \<le> a then exponent n (a / 2) + 1
      else 0)"

definition pow2 :: "int \<Rightarrow> real" where
  "pow2 e = (if 0 \<le> e then 2 ^ nat e else 1 / 2 ^ nat (- e))"

text \<open>
  IEEE 754 binary64, round to nearest, ties to even: a real is rounded to a multiple
  of \<open>2^(e - 52)\<close>, where \<open>e\<close> is its binary exponent, but not less than -1022
  (the subnormal range). Results beyond the largest finite double are outside this
  model.
\<close>

definition binary64 :: "real \<Rightarrow> real" where
  "binary64 x =
     (if x = 0 then 0
      else (let e = max (exponent 1100 \<bar>x\<bar>) (- 1022); q = pow2 (e - 52)
            in sgn x * of_int (roundEven (\<bar>x\<bar> / q)) * q))"

section \<open>Concrete inputs\<close>

text \<open>On strings of ASCII code units \<^verbatim>\<open>toLowerCase\<close> maps A-Z to a-z and
  \<^verbatim>\<open>normalize('NFD')\<close> changes nothing.\<close>

definition asciiLowerCase :: "jsstring \<Rightarrow> jsstring" where
  "asciiLowerCase s = map (\<lambda>c. if 65 \<le> c \<and> c \<le> 90 then c + 32 else c) s"

definition asciiNFD :: "jsstring \<Rightarrow> jsstring" where
  "asciiNFD s = s"

definition teamA :: DraftTeam where
  "teamA = \<lparr>name = lit ''A'', budget = 200, isMyTeam = True\<rparr>"

definition teamB :: DraftTeam where
  "teamB = \<lparr>name = lit ''B'', budget = 200, isMyTeam = False\<rparr>"

definition league :: jsstring where
  "league = lit ''L1''"

definition request :: "string \<Rightarrow> real \<Rightarrow> string \<Rightarrow> PutRequest" where
  "request player bid team =
     \<lparr>rq_playerName = Some (lit player), rq_bidAmount = Some bid,
      rq_isMyPick = False, rq_draftedByTeam = Some (lit team)\<rparr>"

text \<open>The store after initialising the league with the two teams A and B.\<close>

definition twoTeams :: store where
  "twoTeams = snd (POST Map.empty league (Some [teamA, teamB]))"










definition espn :: "string \<Rightarrow> real \<Rightarrow> EspnPlayer" where
  "espn nm v = \<lparr>e_name = lit nm, e_team = [], e_position = [], e_avgAuctionValue = v, e_headshotUrl = []\<rparr>"

definition yahoo :: "string \<Rightarrow> real \<Rightarrow> YahooPlayer" where
  "yahoo nm v = \<lparr>y_name = lit nm, y_yahooAuctionValue = v\<rparr>"

text \<open>A catalogue player and a reported pick of which only the name matters.\<close>

definition player :: "string \<Rightarrow> Player" where
  "player nm = \<lparr>p_name = lit nm, p_team = [], p_position = [], avgAuctionValue = 0,
     headshotUrl = [], espnAuctionValue = 0, yahooAuctionValue = None\<rparr>"

definition draftPick :: "string \<Rightarrow> DraftPick" where
  "draftPick nm = \<lparr>dp_playerId = 1, dp_playerName = lit nm, dp_teamId = 0, dp_pickNumber = 1,
     dp_round = 1, dp_bidAmount = 0, dp_isMyPick = False, dp_draftedByTeam = None\<rparr>"

section \<open>The budget invariant\<close>



section \<open>Sequential pick numbers\<close>

text \<open>The definitions unfolded to evaluate the route on concrete requests.\<close>

lemmas ev = twoTeams_def league_def request_def teamA_def teamB_def POST_def PUT_def GET_def
  storedPicks_def rejected_def truthy_def lit_def defaultData_def legacyBudget_def deductBudget_def
  newPick_def initTeam_def transformedPicks_def transformPick_def Let_def

lemma storedPicks_PUT_rejected:
  "rejected rq \<Longrightarrow> storedPicks (snd (PUT st l rq)) l = storedPicks st l"
  by (simp add: PUT_def)

lemma picks_deductBudget [simp]: "picks (deductBudget d t m b) = picks d"
  by (simp add: deductBudget_def Let_def split: option.splits)

lemma storedPicks_PUT_accepted:
  "\<not> rejected rq \<Longrightarrow>
   \<exists>p. storedPicks (snd (PUT st l rq)) l = storedPicks st l @ [p] \<and>
       pickNumber p = length (storedPicks st l) + 1 \<and>
       pr_pick (projr (fst (PUT st l rq))) = p"
  by (simp add: PUT_def Let_def storedPicks_def newPick_def defaultData_def split: option.splits)

lemma pickNumbers_addPicks:
  "map pickNumber (storedPicks st l) = [1..<length (storedPicks st l) + 1] \<Longrightarrow>
   map pickNumber (storedPicks (addPicks st l rqs) l) =
     [1..<length (storedPicks st l) + length (filter (\<lambda>rq. \<not> rejected rq) rqs) + 1]"
proof (induction rqs arbitrary: st)
  case Nil
  then show ?case by simp
next
  case (Cons rq rqs)
  show ?case
  proof (cases "rejected rq")
    case True
    with Cons show ?thesis by (simp add: storedPicks_PUT_rejected)
  next
    case False
    then obtain p where p: "storedPicks (snd (PUT st l rq)) l = storedPicks st l @ [p]"
        "pickNumber p = length (storedPicks st l) + 1"
      using storedPicks_PUT_accepted by blast
    have "map pickNumber (storedPicks (snd (PUT st l rq)) l) =
            [1..<length (storedPicks (snd (PUT st l rq)) l) + 1]"
      using Cons.prems p by simp
    from Cons.IH [OF this] show ?thesis
      using False p by simp
  qed
qed


lemma snd_enumerate_mem: "ip \<in> set (enumerate n ps) \<Longrightarrow> snd ip \<in> set ps"
proof -
  assume "ip \<in> set (enumerate n ps)"
  then have "snd ip \<in> set (map snd (enumerate n ps))" by (simp only: set_map image_eqI)
  then show ?thesis by simp
qed

lemma dp_pickNumber_nonzero:
  assumes "0 \<notin> set (map pickNumber ps)"
  shows "map dp_pickNumber (transformedPicks ps) = map pickNumber ps"
proof -
  have "map dp_pickNumber (transformedPicks ps) =
        map (\<lambda>ip. if pickNumber (snd ip) = 0 then fst ip + 1 else pickNumber (snd ip)) (enumerate 0 ps)"
    by (simp add: transformedPicks_def transformPick_def case_prod_unfold)
  also have "\<dots> = map (\<lambda>ip. pickNumber (snd ip)) (enumerate 0 ps)"
  proof (rule map_cong [OF refl])
    fix ip assume "ip \<in> set (enumerate 0 ps)"
    then have "snd ip \<in> set ps" by (rule snd_enumerate_mem)
    with assms show "(if pickNumber (snd ip) = 0 then fst ip + 1 else pickNumber (snd ip)) = pickNumber (snd ip)"
      by auto
  qed
  also have "\<dots> = map pickNumber (map snd (enumerate 0 ps))" by (simp only: map_map o_def)
  also have "\<dots> = map pickNumber ps" by simp
  finally show ?thesis .
qed

lemma dp_round_transformed:
  "i < length ps \<Longrightarrow> dp_round (transformedPicks ps ! i) = i div 10 + 1"
  by (simp add: transformedPicks_def nth_enumerate_eq transformPick_def)

lemma length_transformedPicks [simp]: "length (transformedPicks ps) = length ps"
  by (simp add: transformedPicks_def)

lemma prefix_PUT: "prefix (storedPicks st l) (storedPicks (snd (PUT st l rq)) l)"
proof (cases "rejected rq")
  case True then show ?thesis by (simp add: storedPicks_PUT_rejected)
next
  case False
  from storedPicks_PUT_accepted [OF this] show ?thesis by (metis prefixI)
qed

lemma prefix_addPicks: "prefix (storedPicks st l) (storedPicks (addPicks st l rqs) l)"
proof (induction rqs arbitrary: st)
  case Nil show ?case by simp
next
  case (Cons rq rqs)
  have "prefix (storedPicks st l) (storedPicks (snd (PUT st l rq)) l)" by (rule prefix_PUT)
  also have "prefix \<dots> (storedPicks (addPicks (snd (PUT st l rq)) l rqs) l)" by (rule Cons.IH)
  finally show ?case by simp
qed

lemma PUT_accepted:
  "\<not> rejected rq \<Longrightarrow>
   \<exists>r. fst (PUT st l rq) = Inr r \<and> pickNumber (pr_pick r) = length (storedPicks st l) + 1 \<and>
       storedPicks (snd (PUT st l rq)) l = storedPicks st l @ [pr_pick r]"
  by (simp add: PUT_def Let_def storedPicks_def newPick_def defaultData_def split: option.splits)

lemma r_picks_GET: "r_picks (GET st l) = transformedPicks (storedPicks st l)"
  by (simp add: GET_def storedPicks_def transformedPicks_def split: option.splits)

lemma pickNumbers_fresh:
  assumes "storedPicks st l = []"
  shows "map pickNumber (storedPicks (addPicks st l rqs) l) =
           [1..<length (filter (\<lambda>rq. \<not> rejected rq) rqs) + 1]"
  using pickNumbers_addPicks [of st l rqs] assms by simp

lemma dp_pickNumbers_fresh:
  assumes "storedPicks st l = []"
  shows "map dp_pickNumber (r_picks (GET (addPicks st l rqs) l)) =
           [1..<length (filter (\<lambda>rq. \<not> rejected rq) rqs) + 1]"
proof -
  have n: "map pickNumber (storedPicks (addPicks st l rqs) l) =
           [1..<length (filter (\<lambda>rq. \<not> rejected rq) rqs) + 1]"
    using assms by (rule pickNumbers_fresh)
  have "0 \<notin> set (map pickNumber (storedPicks (addPicks st l rqs) l))"
    unfolding n set_upt by simp
  then show ?thesis using n by (simp add: r_picks_GET dp_pickNumber_nonzero)
qed

text \<open>
  Claim C5. A PUT request that passes the request check returns a pick whose
  \<^verbatim>\<open>pickNumber\<close> is the number of picks stored before it plus one, and appends
  exactly that pick. Later requests keep every stored pick as it is: the stored list
  only grows at its end. Hence, on a league without picks, any sequence of requests
  leaves the pick numbers \<open>1..N\<close>, in this order, where \<open>N\<close> is the number of requests
  that were accepted; GET reports the same numbers.
\<close>

theorem pickNumbers_sequential:
  "(\<not> rejected rq \<longrightarrow>
      (\<exists>r. fst (PUT st l rq) = Inr r \<and>
           pickNumber (pr_pick r) = length (storedPicks st l) + 1 \<and>
           storedPicks (snd (PUT st l rq)) l = storedPicks st l @ [pr_pick r])) \<and>
   prefix (storedPicks st l) (storedPicks (addPicks st l rqs) l) \<and>
   (storedPicks st l = [] \<longrightarrow>
      map pickNumber (storedPicks (addPicks st l rqs) l) =
        [1..<length (filter (\<lambda>rq. \<not> rejected rq) rqs) + 1] \<and>
      map dp_pickNumber (r_picks (GET (addPicks st l rqs) l)) =
        [1..<length (filter (\<lambda>rq. \<not> rejected rq) rqs) + 1])"
  using PUT_accepted [of rq st l] prefix_addPicks [of st l rqs]
    pickNumbers_fresh [of st l rqs] dp_pickNumbers_fresh [of st l rqs]
  by blast

theorem pickNumbers_sequential_witness:
  "\<not> rejected (request ''P1'' 50 ''A'') \<and>
   storedPicks twoTeams league = [] \<and>
   map pickNumber (storedPicks (addPicks twoTeams league
      [request ''P1'' 50 ''A'', request ''P2'' 30 ''B'', request ''P3'' 1 ''B'']) league) = [1, 2, 3]"
proof -
  have a: "\<not> rejected (request ''P1'' 50 ''A'')"
    by (simp add: rejected_def request_def truthy_def lit_def)
  have b: "storedPicks twoTeams league = []"
    by (simp add: twoTeams_def POST_def storedPicks_def)
  have c: "length (filter (\<lambda>rq. \<not> rejected rq)
      [request ''P1'' 50 ''A'', request ''P2'' 30 ''B'', request ''P3'' 1 ''B'']) = 3"
    by (simp add: rejected_def request_def truthy_def lit_def)
  let ?rqs = "[request ''P1'' 50 ''A'', request ''P2'' 30 ''B'', request ''P3'' 1 ''B'']"
  from pickNumbers_sequential [of "request ''P1'' 50 ''A''" twoTeams league ?rqs] b
  have "map pickNumber (storedPicks (addPicks twoTeams league ?rqs) league) =
          [1..<length (filter (\<lambda>rq. \<not> rejected rq) ?rqs) + 1]"
    by blast
  also have "\<dots> = [1..<3 + 1]" by (simp only: c)
  also have "\<dots> = [1, 2, 3]" by (simp add: upt_rec)
  finally show ?thesis using a b by blast
qed

section \<open>The request check of PUT\<close>

text \<open>
  Claim C1 at two concrete requests on a league with the teams A and B: a bid of -5
  for team A, and a bid of 5 for a team Z that is not configured. Neither is answered
  with status 400, and each appends a pick.
\<close>

theorem addPick_accepts_counterexample:
  "fst (PUT twoTeams league (request ''P'' (- 5) ''A'')) \<noteq> Inl Error400 \<and>
   length (storedPicks (snd (PUT twoTeams league (request ''P'' (- 5) ''A''))) league) =
     length (storedPicks twoTeams league) + 1 \<and>
   fst (PUT twoTeams league (request ''P'' 5 ''Z'')) \<noteq> Inl Error400 \<and>
   length (storedPicks (snd (PUT twoTeams league (request ''P'' 5 ''Z''))) league) =
     length (storedPicks twoTeams league) + 1"
  by (simp add: ev)

lemma PUT_rejected: "rejected rq \<Longrightarrow> PUT st l rq = (Inl Error400, st)"
  by (simp add: PUT_def)

lemma PUT_not_rejected_pick:
  "\<not> rejected rq \<Longrightarrow>
   \<exists>p. storedPicks (snd (PUT st l rq)) l = storedPicks st l @ [p] \<and>
       Some (playerName p) = rq_playerName rq \<and> Some (bidAmount p) = rq_bidAmount rq \<and>
       fst (PUT st l rq) \<noteq> Inl Error400"
  by (auto simp add: PUT_def Let_def storedPicks_def newPick_def defaultData_def rejected_def truthy_def split: option.splits)

text \<open>
  Claim C1, amended. PUT answers with status 400 exactly when \<^verbatim>\<open>playerName\<close> is
  missing or empty or \<^verbatim>\<open>bidAmount\<close> is missing, and then the store is unchanged.
  Every other request is accepted, whatever the sign of the bid and whether or not
  \<^verbatim>\<open>draftedByTeam\<close> matches a configured team: one pick with the request's player
  name and bid is appended to the stored picks.
\<close>

theorem addPick_request_check:
  "(fst (PUT st l rq) = Inl Error400) =
     (\<not> truthy (rq_playerName rq) \<or> rq_bidAmount rq = None) \<and>
   (fst (PUT st l rq) = Inl Error400 \<longrightarrow> snd (PUT st l rq) = st) \<and>
   (fst (PUT st l rq) \<noteq> Inl Error400 \<longrightarrow>
      (\<exists>p. storedPicks (snd (PUT st l rq)) l = storedPicks st l @ [p] \<and>
           Some (playerName p) = rq_playerName rq \<and> Some (bidAmount p) = rq_bidAmount rq))"
proof (cases "rejected rq")
  case True
  then show ?thesis using PUT_rejected [of rq st l] by (simp add: rejected_def)
next
  case False
  then show ?thesis using PUT_not_rejected_pick [of rq st l] by (auto simp add: rejected_def)
qed

theorem addPick_request_check_witness:
  "fst (PUT twoTeams league (request ''P'' (- 5) ''Z'')) \<noteq> Inl Error400 \<and>
   (\<exists>p. storedPicks (snd (PUT twoTeams league (request ''P'' (- 5) ''Z''))) league =
          storedPicks twoTeams league @ [p]) \<and>
   fst (PUT twoTeams league \<lparr>rq_playerName = None, rq_bidAmount = Some 5, rq_isMyPick = False,
          rq_draftedByTeam = Some (lit ''A'')\<rparr>) = Inl Error400 \<and>
   snd (PUT twoTeams league \<lparr>rq_playerName = None, rq_bidAmount = Some 5, rq_isMyPick = False,
          rq_draftedByTeam = Some (lit ''A'')\<rparr>) = twoTeams"
proof -
  have a: "truthy (rq_playerName (request ''P'' (- 5) ''Z'')) \<and> rq_bidAmount (request ''P'' (- 5) ''Z'') \<noteq> None"
    by (simp add: request_def truthy_def lit_def)
  have b: "\<not> truthy (rq_playerName \<lparr>rq_playerName = None, rq_bidAmount = Some 5, rq_isMyPick = False,
          rq_draftedByTeam = Some (lit ''A'')\<rparr>)"
    by (simp add: truthy_def)
  show ?thesis
    using addPick_request_check [of twoTeams league "request ''P'' (- 5) ''Z''"]
      addPick_request_check [of twoTeams league "\<lparr>rq_playerName = None, rq_bidAmount = Some 5,
          rq_isMyPick = False, rq_draftedByTeam = Some (lit ''A'')\<rparr>"] a b
    by blast
qed

section \<open>The total number of picks\<close>

text \<open>Claim C2 at the two teams A and B: GET reports 130 picks, not 2 * 13.\<close>

theorem totalPicks_two_teams_counterexample:
  "length [teamA, teamB] = 2 \<and>
   r_totalPicks (GET (snd (POST Map.empty league (Some [teamA, teamB]))) league) \<noteq> 2 * 13"
  by (simp add: ev)

lemma totalPicks_deductBudget [simp]: "totalPicks (deductBudget d t m b) = totalPicks d"
  by (simp add: deductBudget_def Let_def split: option.splits)

lemma GET_totalPicks_PUT:
  "r_totalPicks (GET st l) = 130 \<Longrightarrow> r_totalPicks (GET (snd (PUT st l rq)) l) = 130"
  by (auto simp add: PUT_def GET_def Let_def defaultData_def split: option.splits)

lemma GET_totalPicks_addPicks:
  "r_totalPicks (GET st l) = 130 \<Longrightarrow> r_totalPicks (GET (addPicks st l rqs) l) = 130"
  by (induction rqs arbitrary: st) (simp_all add: GET_totalPicks_PUT)

lemma GET_totalPicks_POST: "r_totalPicks (GET (snd (POST st l (Some ts))) l) = 130"
  by (simp add: POST_def GET_def)

text \<open>
  Claim C2, amended. For a team list of any length, POST stores the constant 130 as
  \<^verbatim>\<open>totalPicks\<close>, GET reports it, and adding picks does not change it. It is the
  product of the number of teams and a roster size of 13 exactly for ten teams.
\<close>

theorem totalPicks_constant:
  "r_totalPicks (GET (snd (POST st l (Some ts))) l) = 130 \<and>
   r_totalPicks (GET (addPicks (snd (POST st l (Some ts))) l rqs) l) = 130 \<and>
   (r_totalPicks (GET (snd (POST st l (Some ts))) l) = length ts * 13) = (length ts = 10)"
  using GET_totalPicks_POST [of st l ts] GET_totalPicks_addPicks [OF GET_totalPicks_POST, of st l ts rqs]
  by auto

theorem totalPicks_constant_witness:
  "r_totalPicks (GET (addPicks twoTeams league [request ''P1'' 50 ''A'']) league) = 130 \<and>
   length [teamA, teamB] \<noteq> 10"
  using totalPicks_constant [of Map.empty league "[teamA, teamB]" "[request ''P1'' 50 ''A'']"]
  by (simp add: twoTeams_def)

section \<open>Rounds\<close>

text \<open>Claim C4 at the third pick of a league of two teams: GET reports round 1, and
  \<open>(3 - 1) div 2 + 1\<close> is 2.\<close>

theorem round_team_count_counterexample:
  "length (r_teams (GET (addPicks twoTeams league
      [request ''P1'' 50 ''A'', request ''P2'' 30 ''B'', request ''P3'' 1 ''B'']) league)) = 2 \<and>
   dp_pickNumber (r_picks (GET (addPicks twoTeams league
      [request ''P1'' 50 ''A'', request ''P2'' 30 ''B'', request ''P3'' 1 ''B'']) league) ! 2) = 3 \<and>
   dp_round (r_picks (GET (addPicks twoTeams league
      [request ''P1'' 50 ''A'', request ''P2'' 30 ''B'', request ''P3'' 1 ''B'']) league) ! 2)
     \<noteq> (3 - 1) div 2 + 1"
  by (simp add: ev)

text \<open>
  Claim C4, amended. The pick at index \<open>i\<close> of a GET response has round
  \<open>i div 10 + 1\<close>: the divisor is the constant 10, not the number of configured
  teams. For a league whose picks were all added by PUT, the pick at index \<open>i\<close> has
  pick number \<open>i + 1\<close>, so its round is \<open>(pickNumber - 1) div 10 + 1\<close>. (The pick
  that PUT itself returns is a \<^verbatim>\<open>SyncedPick\<close>, which has no round.)
\<close>

theorem round_by_ten:
  "(i < length (r_picks (GET st l)) \<longrightarrow> dp_round (r_picks (GET st l) ! i) = i div 10 + 1) \<and>
   (storedPicks st l = [] \<and> i < length (r_picks (GET (addPicks st l rqs) l)) \<longrightarrow>
      dp_pickNumber (r_picks (GET (addPicks st l rqs) l) ! i) = i + 1 \<and>
      dp_round (r_picks (GET (addPicks st l rqs) l) ! i) =
        (dp_pickNumber (r_picks (GET (addPicks st l rqs) l) ! i) - 1) div 10 + 1)"
proof -
  have r: "\<And>s. i < length (r_picks (GET s l)) \<Longrightarrow> dp_round (r_picks (GET s l) ! i) = i div 10 + 1"
    by (simp add: r_picks_GET dp_round_transformed)
  have "dp_pickNumber (r_picks (GET (addPicks st l rqs) l) ! i) = i + 1"
    if f: "storedPicks st l = []" and i: "i < length (r_picks (GET (addPicks st l rqs) l))"
  proof -
    have "dp_pickNumber (r_picks (GET (addPicks st l rqs) l) ! i) =
          map dp_pickNumber (r_picks (GET (addPicks st l rqs) l)) ! i"
      using i by simp
    also have "\<dots> = [1..<length (filter (\<lambda>rq. \<not> rejected rq) rqs) + 1] ! i"
      by (simp only: dp_pickNumbers_fresh [OF f])
    also have "\<dots> = i + 1"
    proof -
      have "i < length (map dp_pickNumber (r_picks (GET (addPicks st l rqs) l)))" using i by simp
      then have "i < length [1..<length (filter (\<lambda>rq. \<not> rejected rq) rqs) + 1]"
        by (simp only: dp_pickNumbers_fresh [OF f])
      then show ?thesis by (simp del: upt_Suc)
    qed
    finally show ?thesis .
  qed
  with r show ?thesis by simp
qed

theorem round_by_ten_witness:
  "storedPicks twoTeams league = [] \<and>
   10 < length (r_picks (GET (addPicks twoTeams league (replicate 11 (request ''P'' 1 ''B''))) league)) \<and>
   dp_pickNumber (r_picks (GET (addPicks twoTeams league (replicate 11 (request ''P'' 1 ''B''))) league) ! 10) = 11 \<and>
   dp_round (r_picks (GET (addPicks twoTeams league (replicate 11 (request ''P'' 1 ''B''))) league) ! 10) = 2"
proof -
  let ?g = "GET (addPicks twoTeams league (replicate 11 (request ''P'' 1 ''B''))) league"
  have a: "storedPicks twoTeams league = []"
    by (simp add: twoTeams_def POST_def storedPicks_def)
  have "length (filter (\<lambda>rq. \<not> rejected rq) (replicate 11 (request ''P'' 1 ''B''))) = 11"
    by (simp add: rejected_def request_def truthy_def lit_def)
  then have "length (map dp_pickNumber (r_picks ?g)) = length [1..<11 + 1]"
    using dp_pickNumbers_fresh [OF a, of "replicate 11 (request ''P'' 1 ''B'')"] by simp
  then have b: "10 < length (r_picks ?g)" by simp
  from round_by_ten [of 10 twoTeams league "replicate 11 (request ''P'' 1 ''B'')"] a b
  have "dp_pickNumber (r_picks ?g ! 10) = 10 + 1 \<and>
        dp_round (r_picks ?g ! 10) = (dp_pickNumber (r_picks ?g ! 10) - 1) div 10 + 1"
    by blast
  then have "dp_pickNumber (r_picks ?g ! 10) = 11 \<and> dp_round (r_picks ?g ! 10) = 2" by simp
  with a b show ?thesis by blast
qed

section \<open>The budget deduction\<close>

















section \<open>The merged records\<close>

lemma fold_upd_miss:
  "(\<forall>y\<in>set ys. key y \<noteq> k) \<Longrightarrow> fold (\<lambda>y m. m(key y \<mapsto> val y)) ys m k = m k"
  by (induction ys arbitrary: m) auto

lemma fold_upd_last:
  "key y = k \<Longrightarrow> (\<forall>z\<in>set zs. key z \<noteq> k) \<Longrightarrow>
   fold (\<lambda>y m. m(key y \<mapsto> val y)) (xs @ y # zs) m k = Some (val y)"
  by (simp add: fold_upd_miss)

lemma split_last_match:
  "\<exists>y\<in>set ys. key y = k \<Longrightarrow>
   \<exists>xs y zs. ys = xs @ y # zs \<and> key y = k \<and> (\<forall>z\<in>set zs. key z \<noteq> k)"
proof -
  assume "\<exists>y\<in>set ys. key y = k"
  then have "\<exists>y\<in>set ys. (\<lambda>y. key y = k) y" .
  from split_list_last_prop [OF this] show ?thesis by blast
qed

lemma yahooMap_None:
  "(\<forall>s\<in>set yahooData. normalizeName lo nf (y_name s) \<noteq> k) \<Longrightarrow> yahooMap lo nf yahooData k = None"
  unfolding yahooMap_def
  using fold_upd_miss [of yahooData "\<lambda>s. normalizeName lo nf (y_name s)" k y_yahooAuctionValue Map.empty]
  by simp

lemma yahooMap_Some:
  assumes "\<exists>s\<in>set yahooData. normalizeName lo nf (y_name s) = k"
  shows "\<exists>xs s zs. yahooData = xs @ s # zs \<and> normalizeName lo nf (y_name s) = k \<and>
           (\<forall>z\<in>set zs. normalizeName lo nf (y_name z) \<noteq> k) \<and>
           yahooMap lo nf yahooData k = Some (y_yahooAuctionValue s)"
proof -
  from split_last_match [of yahooData "\<lambda>s. normalizeName lo nf (y_name s)" k] assms
  obtain xs s zs where d: "yahooData = xs @ s # zs" "normalizeName lo nf (y_name s) = k"
    "\<forall>z\<in>set zs. normalizeName lo nf (y_name z) \<noteq> k" by blast
  have "yahooMap lo nf (xs @ s # zs) k = Some (y_yahooAuctionValue s)"
    unfolding yahooMap_def
    using fold_upd_last [of "\<lambda>s. normalizeName lo nf (y_name s)" s k zs y_yahooAuctionValue xs Map.empty] d(2,3)
    by simp
  with d show ?thesis by blast
qed

lemma Math_round_tenth: "\<bar>Math_round (x * 10) / 10 - x\<bar> \<le> 1 / 20"
proof -
  define k where "k = real_of_int \<lfloor>x * 10 + 1 / 2\<rfloor>"
  have a: "k \<le> x * 10 + 1 / 2" unfolding k_def by (rule of_int_floor_le)
  have b: "x * 10 + 1 / 2 < k + 1" unfolding k_def by linarith
  have "\<bar>k / 10 - x\<bar> \<le> 1 / 20" using a b by linarith
  then show ?thesis by (simp add: Math_round_def k_def)
qed

lemma mergePlayer_fields:
  "p_name (mergePlayer fl lo nf ym p) = e_name p \<and> espnAuctionValue (mergePlayer fl lo nf ym p) = e_avgAuctionValue p"
  by (simp add: mergePlayer_def Let_def split: option.splits)

lemma mergePlayer_None:
  "ym (normalizeName lo nf (e_name p)) = None \<Longrightarrow>
   avgAuctionValue (mergePlayer fl lo nf ym p) = e_avgAuctionValue p \<and>
   yahooAuctionValue (mergePlayer fl lo nf ym p) = None"
  by (simp add: mergePlayer_def)

lemma mergePlayer_Some:
  "ym (normalizeName lo nf (e_name p)) = Some v \<Longrightarrow>
   avgAuctionValue (mergePlayer fl lo nf ym p) =
     fl (Math_round (fl (fl (fl (e_avgAuctionValue p + v) / 2) * 10)) / 10) \<and>
   yahooAuctionValue (mergePlayer fl lo nf ym p) = Some v"
  by (simp add: mergePlayer_def Let_def)

lemma set_reconcile:
  "set (reconcile fl lo nf draftData yahooData) = mergePlayer fl lo nf (yahooMap lo nf yahooData) ` set draftData"
  by (simp add: reconcile_def mergedData_def)

text \<open>The definitions unfolded to evaluate the merge script and the rounding of
  doubles on concrete records.\<close>

lemmas evn = normalizeName_def trim_def isSpace_def asciiLowerCase_def asciiNFD_def lit_def
  espn_def yahoo_def

lemmas evd = binary64_def roundEven_def pow2_def Let_def eval_nat_numeral

lemma binary64_examples:
  "binary64 (681 / 10) = 2396055739249459 / 35184372088832"
  "binary64 (798 / 10) = 5615425785377587 / 70368744177664"
  "binary64 (739 / 10) = 2600125097364685 / 35184372088832"
  by (simp_all add: evd)

text \<open>
  Claim C3 at the values 68.1 and 79.8, which JSON.parse turns into the nearest
  doubles. The script stores the double nearest to 73.9. That is neither the tenth
  nearest to the mean of the two stored doubles (73.9 itself, which is not a
  double), nor the tenth 74.0 that the mean 73.95 of the two decimal values rounds
  to.
\<close>

theorem reconcile_average_counterexample:
  "map avgAuctionValue
     (reconcile binary64 asciiLowerCase asciiNFD
        [espn ''A'' (binary64 (681 / 10))] [yahoo ''A'' (binary64 (798 / 10))]) =
     [binary64 (739 / 10)] \<and>
   binary64 (739 / 10) \<noteq>
     of_int \<lfloor>(binary64 (681 / 10) + binary64 (798 / 10)) / 2 * 10 + 1 / 2\<rfloor> / 10 \<and>
   binary64 (739 / 10) \<noteq> of_int \<lfloor>(681 / 10 + 798 / 10 :: real) / 2 * 10 + 1 / 2\<rfloor> / 10"
proof -
  have y: "yahooMap asciiLowerCase asciiNFD [yahoo ''A'' (binary64 (798 / 10))]
             (normalizeName asciiLowerCase asciiNFD (e_name (espn ''A'' (binary64 (681 / 10))))) =
           Some (binary64 (798 / 10))"
    by (simp add: yahooMap_def evn)
  have s: "binary64 (binary64 (681 / 10) + binary64 (798 / 10)) = 1300942157984563 / 8796093022208"
    unfolding binary64_examples by (simp add: evd)
  have h: "binary64 (1300942157984563 / 8796093022208 / 2) = 1300942157984563 / 17592186044416"
    by (simp add: evd)
  have t: "binary64 (1300942157984563 / 17592186044416 * 10) = 6504710789922815 / 8796093022208"
    by (simp add: evd)
  have r: "Math_round (6504710789922815 / 8796093022208) = 739"
    by (simp add: Math_round_def)
  have e: "e_avgAuctionValue (espn ''A'' (binary64 (681 / 10))) = binary64 (681 / 10)"
    by (simp add: espn_def)
  have a: "avgAuctionValue (mergePlayer binary64 asciiLowerCase asciiNFD
             (yahooMap asciiLowerCase asciiNFD [yahoo ''A'' (binary64 (798 / 10))])
             (espn ''A'' (binary64 (681 / 10)))) = binary64 (739 / 10)"
  proof -
    have "avgAuctionValue (mergePlayer binary64 asciiLowerCase asciiNFD
             (yahooMap asciiLowerCase asciiNFD [yahoo ''A'' (binary64 (798 / 10))])
             (espn ''A'' (binary64 (681 / 10)))) =
          binary64 (Math_round (binary64 (binary64 (binary64
             (e_avgAuctionValue (espn ''A'' (binary64 (681 / 10))) + binary64 (798 / 10)) / 2) * 10)) / 10) \<and>
          yahooAuctionValue (mergePlayer binary64 asciiLowerCase asciiNFD
             (yahooMap asciiLowerCase asciiNFD [yahoo ''A'' (binary64 (798 / 10))])
             (espn ''A'' (binary64 (681 / 10)))) = Some (binary64 (798 / 10))"
      using y by (rule mergePlayer_Some)
    from this [unfolded e s h t r] show ?thesis by (rule conjunct1)
  qed
  have 1: "map avgAuctionValue
     (reconcile binary64 asciiLowerCase asciiNFD
        [espn ''A'' (binary64 (681 / 10))] [yahoo ''A'' (binary64 (798 / 10))]) =
     [binary64 (739 / 10)]"
    using a by (simp add: reconcile_def mergedData_def)
  have 2: "binary64 (739 / 10) \<noteq>
     of_int \<lfloor>(binary64 (681 / 10) + binary64 (798 / 10)) / 2 * 10 + 1 / 2\<rfloor> / 10"
    unfolding binary64_examples by simp
  have 3: "binary64 (739 / 10) \<noteq> of_int \<lfloor>(681 / 10 + 798 / 10 :: real) / 2 * 10 + 1 / 2\<rfloor> / 10"
    unfolding binary64_examples by simp
  from 1 2 3 show ?thesis by blast
qed

text \<open>
  Claim C3, amended. For every record \<open>p\<close> of the primary list the output holds a
  record with the name and the ESPN value of \<open>p\<close>. If no secondary record has the
  normalized name of \<open>p\<close>, its average is the primary value and its Yahoo value is
  null. If some secondary record has it, then for the last such record \<open>s\<close> (the one
  the lookup map keeps) the Yahoo value is the value of \<open>s\<close> and the average is
  \<^verbatim>\<open>Math.round(((p + s) / 2) * 10) / 10\<close> in the arithmetic of the runtime, where
  each of the sum, the two quotients and the product is rounded to a double. When
  these four roundings change nothing, the average is the mean rounded to one
  decimal place: a whole number of tenths at most \<open>1/20\<close> away from the mean.
\<close>

theorem reconcile_average:
  assumes "p \<in> set primary"
  shows "\<exists>r\<in>set (reconcile fl lo nf primary secondary).
           p_name r = e_name p \<and> espnAuctionValue r = e_avgAuctionValue p \<and>
           ((\<forall>s\<in>set secondary. normalizeName lo nf (y_name s) \<noteq> normalizeName lo nf (e_name p)) \<longrightarrow>
              avgAuctionValue r = e_avgAuctionValue p \<and> yahooAuctionValue r = None) \<and>
           ((\<exists>s\<in>set secondary. normalizeName lo nf (y_name s) = normalizeName lo nf (e_name p)) \<longrightarrow>
              (\<exists>xs s zs. secondary = xs @ s # zs \<and>
                 normalizeName lo nf (y_name s) = normalizeName lo nf (e_name p) \<and>
                 (\<forall>z\<in>set zs. normalizeName lo nf (y_name z) \<noteq> normalizeName lo nf (e_name p)) \<and>
                 yahooAuctionValue r = Some (y_yahooAuctionValue s) \<and>
                 avgAuctionValue r =
                   fl (of_int \<lfloor>fl (fl (fl (e_avgAuctionValue p + y_yahooAuctionValue s) / 2) * 10)
                               + 1 / 2\<rfloor> / 10) \<and>
                 (fl (e_avgAuctionValue p + y_yahooAuctionValue s) =
                    e_avgAuctionValue p + y_yahooAuctionValue s \<and>
                  fl ((e_avgAuctionValue p + y_yahooAuctionValue s) / 2) =
                    (e_avgAuctionValue p + y_yahooAuctionValue s) / 2 \<and>
                  fl ((e_avgAuctionValue p + y_yahooAuctionValue s) / 2 * 10) =
                    (e_avgAuctionValue p + y_yahooAuctionValue s) / 2 * 10 \<and>
                  fl (of_int \<lfloor>(e_avgAuctionValue p + y_yahooAuctionValue s) / 2 * 10 + 1 / 2\<rfloor> / 10) =
                    of_int \<lfloor>(e_avgAuctionValue p + y_yahooAuctionValue s) / 2 * 10 + 1 / 2\<rfloor> / 10 \<longrightarrow>
                  avgAuctionValue r =
                    of_int \<lfloor>(e_avgAuctionValue p + y_yahooAuctionValue s) / 2 * 10 + 1 / 2\<rfloor> / 10 \<and>
                  \<bar>avgAuctionValue r - (e_avgAuctionValue p + y_yahooAuctionValue s) / 2\<bar> \<le> 1 / 20)))"
proof -
  let ?ym = "yahooMap lo nf secondary"
  let ?r = "mergePlayer fl lo nf ?ym p"
  let ?k = "normalizeName lo nf (e_name p)"
  have mem: "?r \<in> set (reconcile fl lo nf primary secondary)"
    using assms by (simp add: set_reconcile)
  have none: "avgAuctionValue ?r = e_avgAuctionValue p \<and> yahooAuctionValue ?r = None"
    if "\<forall>s\<in>set secondary. normalizeName lo nf (y_name s) \<noteq> ?k"
    using that by (intro mergePlayer_None yahooMap_None)
  have some: "\<exists>xs s zs. secondary = xs @ s # zs \<and> normalizeName lo nf (y_name s) = ?k \<and>
                 (\<forall>z\<in>set zs. normalizeName lo nf (y_name z) \<noteq> ?k) \<and>
                 yahooAuctionValue ?r = Some (y_yahooAuctionValue s) \<and>
                 avgAuctionValue ?r =
                   fl (of_int \<lfloor>fl (fl (fl (e_avgAuctionValue p + y_yahooAuctionValue s) / 2) * 10)
                               + 1 / 2\<rfloor> / 10) \<and>
                 (fl (e_avgAuctionValue p + y_yahooAuctionValue s) =
                    e_avgAuctionValue p + y_yahooAuctionValue s \<and>
                  fl ((e_avgAuctionValue p + y_yahooAuctionValue s) / 2) =
                    (e_avgAuctionValue p + y_yahooAuctionValue s) / 2 \<and>
                  fl ((e_avgAuctionValue p + y_yahooAuctionValue s) / 2 * 10) =
                    (e_avgAuctionValue p + y_yahooAuctionValue s) / 2 * 10 \<and>
                  fl (of_int \<lfloor>(e_avgAuctionValue p + y_yahooAuctionValue s) / 2 * 10 + 1 / 2\<rfloor> / 10) =
                    of_int \<lfloor>(e_avgAuctionValue p + y_yahooAuctionValue s) / 2 * 10 + 1 / 2\<rfloor> / 10 \<longrightarrow>
                  avgAuctionValue ?r =
                    of_int \<lfloor>(e_avgAuctionValue p + y_yahooAuctionValue s) / 2 * 10 + 1 / 2\<rfloor> / 10 \<and>
                  \<bar>avgAuctionValue ?r - (e_avgAuctionValue p + y_yahooAuctionValue s) / 2\<bar> \<le> 1 / 20)"
    if "\<exists>s\<in>set secondary. normalizeName lo nf (y_name s) = ?k"
  proof -
    from yahooMap_Some [OF that] obtain xs s zs where
      d: "secondary = xs @ s # zs" "normalizeName lo nf (y_name s) = ?k"
         "\<forall>z\<in>set zs. normalizeName lo nf (y_name z) \<noteq> ?k"
         "?ym ?k = Some (y_yahooAuctionValue s)" by blast
    let ?m = "(e_avgAuctionValue p + y_yahooAuctionValue s) / 2"
    have "avgAuctionValue ?r =
            fl (Math_round (fl (fl (fl (e_avgAuctionValue p + y_yahooAuctionValue s) / 2) * 10)) / 10) \<and>
          yahooAuctionValue ?r = Some (y_yahooAuctionValue s)"
      using d(4) by (rule mergePlayer_Some)
    then have
      v: "avgAuctionValue ?r =
            fl (of_int \<lfloor>fl (fl (fl (e_avgAuctionValue p + y_yahooAuctionValue s) / 2) * 10) + 1 / 2\<rfloor> / 10)"
         "yahooAuctionValue ?r = Some (y_yahooAuctionValue s)"
      by (simp_all add: Math_round_def)
    have x: "avgAuctionValue ?r = of_int \<lfloor>?m * 10 + 1 / 2\<rfloor> / 10 \<and> \<bar>avgAuctionValue ?r - ?m\<bar> \<le> 1 / 20"
      if e: "fl (e_avgAuctionValue p + y_yahooAuctionValue s) =
               e_avgAuctionValue p + y_yahooAuctionValue s"
            "fl ?m = ?m" "fl (?m * 10) = ?m * 10"
            "fl (of_int \<lfloor>?m * 10 + 1 / 2\<rfloor> / 10) = of_int \<lfloor>?m * 10 + 1 / 2\<rfloor> / 10"
    proof -
      have eq: "avgAuctionValue ?r = of_int \<lfloor>?m * 10 + 1 / 2\<rfloor> / 10"
        unfolding v(1) e(1) e(2) e(3) e(4) ..
      have "\<bar>Math_round (?m * 10) / 10 - ?m\<bar> \<le> 1 / 20" by (rule Math_round_tenth)
      then have "\<bar>avgAuctionValue ?r - ?m\<bar> \<le> 1 / 20"
        unfolding eq Math_round_def .
      with eq show ?thesis by blast
    qed
    show ?thesis using d(1,2,3) v x by blast
  qed
  show ?thesis
    using mem mergePlayer_fields [of fl lo nf ?ym p] none some by blast
qed

theorem reconcile_average_witness:
  "espn ''A'' 80 \<in> set [espn ''A'' 80] \<and>
   (\<exists>r\<in>set (reconcile binary64 asciiLowerCase asciiNFD [espn ''A'' 80] [yahoo ''A'' 60]).
      avgAuctionValue r = 70 \<and> espnAuctionValue r = 80 \<and> yahooAuctionValue r = Some 60) \<and>
   (\<exists>r\<in>set (reconcile binary64 asciiLowerCase asciiNFD [espn ''B'' 40] []).
      avgAuctionValue r = 40 \<and> yahooAuctionValue r = None)"
proof -
  let ?N = "normalizeName asciiLowerCase asciiNFD"
  have m: "\<exists>s\<in>set [yahoo ''A'' 60]. ?N (y_name s) = ?N (e_name (espn ''A'' 80))"
    by (simp add: evn)
  have f: "binary64 140 = 140" "binary64 70 = 70" "binary64 700 = 700"
    by (simp_all add: evd)
  from reconcile_average [of "espn ''A'' 80" "[espn ''A'' 80]" binary64 asciiLowerCase asciiNFD "[yahoo ''A'' 60]"]
  obtain r where r: "r \<in> set (reconcile binary64 asciiLowerCase asciiNFD [espn ''A'' 80] [yahoo ''A'' 60])"
    "espnAuctionValue r = e_avgAuctionValue (espn ''A'' 80)"
    "(\<exists>s\<in>set [yahoo ''A'' 60]. ?N (y_name s) = ?N (e_name (espn ''A'' 80))) \<longrightarrow>
       (\<exists>xs s zs. [yahoo ''A'' 60] = xs @ s # zs \<and>
          yahooAuctionValue r = Some (y_yahooAuctionValue s) \<and>
          avgAuctionValue r =
            binary64 (of_int \<lfloor>binary64 (binary64 (binary64
               (e_avgAuctionValue (espn ''A'' 80) + y_yahooAuctionValue s) / 2) * 10) + 1 / 2\<rfloor> / 10))"
    by auto
  from r(3) m obtain xs s zs where s: "[yahoo ''A'' 60] = xs @ s # zs"
    "yahooAuctionValue r = Some (y_yahooAuctionValue s)"
    "avgAuctionValue r =
       binary64 (of_int \<lfloor>binary64 (binary64 (binary64
          (e_avgAuctionValue (espn ''A'' 80) + y_yahooAuctionValue s) / 2) * 10) + 1 / 2\<rfloor> / 10)"
    by blast
  from s(1) have "s = yahoo ''A'' 60" by (simp add: Cons_eq_append_conv)
  with s(2,3) r(2) have "avgAuctionValue r = 70 \<and> espnAuctionValue r = 80 \<and> yahooAuctionValue r = Some 60"
    by (simp add: espn_def yahoo_def f)
  with r(1) have a: "\<exists>r\<in>set (reconcile binary64 asciiLowerCase asciiNFD [espn ''A'' 80] [yahoo ''A'' 60]).
      avgAuctionValue r = 70 \<and> espnAuctionValue r = 80 \<and> yahooAuctionValue r = Some 60" by blast
  from reconcile_average [of "espn ''B'' 40" "[espn ''B'' 40]" binary64 asciiLowerCase asciiNFD "[]"]
  have b: "\<exists>r\<in>set (reconcile binary64 asciiLowerCase asciiNFD [espn ''B'' 40] []).
      avgAuctionValue r = 40 \<and> yahooAuctionValue r = None"
    by (auto simp add: espn_def)
  from a b show ?thesis by simp
qed

text \<open>Claim C6 at a primary list with the names "A" and "a.", which have the same
  normalized name "a": the output holds two records with that normalized name.\<close>

theorem reconcile_duplicate_counterexample:
  "\<not> distinct (map (normalizeName asciiLowerCase asciiNFD)
        (map p_name (reconcile binary64 asciiLowerCase asciiNFD [espn ''A'' 80, espn ''a.'' 70] [])))"
  by (simp add: reconcile_def mergedData_def mergePlayer_def yahooMap_def evn)

lemma mset_reconcile:
  "mset (reconcile fl lo nf primary secondary) = mset (mergedData fl lo nf primary secondary)"
  by (simp add: reconcile_def)

lemma names_mergedData: "map p_name (mergedData fl lo nf primary secondary) = map e_name primary"
  by (simp add: mergedData_def mergePlayer_fields)

text \<open>
  Claim C6, amended. The output holds exactly one record per primary record,
  whatever the secondary list is: it is as long as the primary list and carries the
  same names with the same multiplicities. So its normalized names are distinct
  exactly when those of the primary list are.
\<close>

theorem reconcile_one_per_primary:
  "length (reconcile fl lo nf primary secondary) = length primary \<and>
   mset (map p_name (reconcile fl lo nf primary secondary)) = mset (map e_name primary) \<and>
   distinct (map (\<lambda>r. normalizeName lo nf (p_name r)) (reconcile fl lo nf primary secondary)) =
     distinct (map (\<lambda>p. normalizeName lo nf (e_name p)) primary)"
proof -
  have l: "length (reconcile fl lo nf primary secondary) = length primary"
    by (simp add: reconcile_def mergedData_def)
  have "mset (map p_name (reconcile fl lo nf primary secondary)) =
        mset (map p_name (mergedData fl lo nf primary secondary))"
    by (simp only: mset_map mset_reconcile)
  then have m: "mset (map p_name (reconcile fl lo nf primary secondary)) = mset (map e_name primary)"
    by (simp only: names_mergedData)
  have "mset (map (normalizeName lo nf) (map p_name (reconcile fl lo nf primary secondary))) =
        mset (map (normalizeName lo nf) (map e_name primary))"
    using m by (simp only: mset_map)
  then have "distinct (map (normalizeName lo nf) (map p_name (reconcile fl lo nf primary secondary))) =
        distinct (map (normalizeName lo nf) (map e_name primary))"
    by (rule mset_eq_imp_distinct_iff)
  then have d: "distinct (map (\<lambda>r. normalizeName lo nf (p_name r)) (reconcile fl lo nf primary secondary)) =
     distinct (map (\<lambda>p. normalizeName lo nf (e_name p)) primary)"
    by (simp only: map_map o_def)
  from l m d show ?thesis by blast
qed

theorem reconcile_one_per_primary_witness:
  "distinct (map (\<lambda>p. normalizeName asciiLowerCase asciiNFD (e_name p)) [espn ''A'' 80, espn ''B'' 70]) \<and>
   distinct (map (\<lambda>r. normalizeName asciiLowerCase asciiNFD (p_name r))
      (reconcile binary64 asciiLowerCase asciiNFD [espn ''A'' 80, espn ''B'' 70] [yahoo ''b'' 1, yahoo ''B'' 2])) \<and>
   length (reconcile binary64 asciiLowerCase asciiNFD [espn ''A'' 80, espn ''B'' 70] [yahoo ''b'' 1, yahoo ''B'' 2]) = 2"
proof -
  have "distinct (map (\<lambda>p. normalizeName asciiLowerCase asciiNFD (e_name p)) [espn ''A'' 80, espn ''B'' 70])"
    by (simp add: evn)
  then show ?thesis
    using reconcile_one_per_primary [of binary64 asciiLowerCase asciiNFD "[espn ''A'' 80, espn ''B'' 70]"
        "[yahoo ''b'' 1, yahoo ''B'' 2]"]
    by simp
qed

text \<open>
  Claim C8. The output is sorted by \<^verbatim>\<open>avgAuctionValue\<close>, non-increasing, and for
  every value \<open>v\<close> the output records with that average are the records merged from
  the primary records, in the order of the primary list.
\<close>

theorem reconcile_sorted:
  "sorted_wrt (\<lambda>a b. avgAuctionValue b \<le> avgAuctionValue a) (reconcile fl lo nf primary secondary) \<and>
   filter (\<lambda>r. avgAuctionValue r = v) (reconcile fl lo nf primary secondary) =
     map (mergePlayer fl lo nf (yahooMap lo nf secondary))
       (filter (\<lambda>p. avgAuctionValue (mergePlayer fl lo nf (yahooMap lo nf secondary) p) = v) primary)"
proof -
  let ?xs = "mergedData fl lo nf primary secondary"
  have "sorted (map (\<lambda>p. - avgAuctionValue p) (sort_key (\<lambda>p. - avgAuctionValue p) ?xs))"
    by (rule sorted_sort_key)
  then have s: "sorted_wrt (\<lambda>a b. avgAuctionValue b \<le> avgAuctionValue a) (reconcile fl lo nf primary secondary)"
    by (simp add: reconcile_def sorted_wrt_map)
  have "filter (\<lambda>r. - avgAuctionValue r = - v) (sort_key (\<lambda>p. - avgAuctionValue p) ?xs) =
        filter (\<lambda>r. - avgAuctionValue r = - v) ?xs"
    by (rule sort_key_stable)
  then have "filter (\<lambda>r. avgAuctionValue r = v) (reconcile fl lo nf primary secondary) =
        filter (\<lambda>r. avgAuctionValue r = v) ?xs"
    by (simp add: reconcile_def)
  also have "\<dots> = map (mergePlayer fl lo nf (yahooMap lo nf secondary))
       (filter (\<lambda>p. avgAuctionValue (mergePlayer fl lo nf (yahooMap lo nf secondary) p) = v) primary)"
    by (simp add: mergedData_def filter_map o_def)
  finally show ?thesis using s by blast
qed

theorem reconcile_sorted_witness:
  "sorted_wrt (\<lambda>a b. avgAuctionValue b \<le> avgAuctionValue a)
     (reconcile binary64 asciiLowerCase asciiNFD [espn ''A'' 40, espn ''B'' 80, espn ''C'' 40] []) \<and>
   map p_name (filter (\<lambda>r. avgAuctionValue r = 40)
     (reconcile binary64 asciiLowerCase asciiNFD [espn ''A'' 40, espn ''B'' 80, espn ''C'' 40] [])) =
     [lit ''A'', lit ''C'']"
  using reconcile_sorted [of binary64 asciiLowerCase asciiNFD "[espn ''A'' 40, espn ''B'' 80, espn ''C'' 40]" "[]" 40]
  by (simp add: mergePlayer_def yahooMap_def espn_def)

section \<open>Excluding drafted players\<close>

lemma includes_js_sublist: "includes_js hay needle = sublist needle hay"
  by (induction hay) (simp_all add: sublist_Cons_right)

lemma includes_js_iff: "includes_js hay needle = (\<exists>u v. hay = u @ needle @ v)"
  by (simp add: includes_js_sublist sublist_def)

text \<open>
  Claim C7. A player of the catalogue is kept as available exactly when no pick
  matches it; a pick matches when, after lower-casing both names, the pick's player
  name occurs inside the player's name or the player's name inside the pick's.
\<close>

theorem available_iff:
  "(p \<in> set (availablePlayers toLowerCase allPlayers dpicks)) =
     (p \<in> set allPlayers \<and>
      \<not> (\<exists>pick\<in>set dpicks.
            (\<exists>u v. toLowerCase (dp_playerName pick) = u @ toLowerCase (p_name p) @ v) \<or>
            (\<exists>u v. toLowerCase (p_name p) = u @ toLowerCase (dp_playerName pick) @ v)))"
  by (simp add: availablePlayers_def list_ex_iff includes_js_iff)

theorem available_iff_witness:
  "p_name (player ''LeBron James'') \<noteq> dp_playerName (draftPick ''LeBron'') \<and>
   (\<exists>u v. asciiLowerCase (p_name (player ''LeBron James'')) =
          u @ asciiLowerCase (dp_playerName (draftPick ''LeBron'')) @ v) \<and>
   player ''LeBron James'' \<notin> set (availablePlayers asciiLowerCase [player ''LeBron James''] [draftPick ''LeBron'']) \<and>
   player ''Kevin Durant'' \<in> set (availablePlayers asciiLowerCase [player ''Kevin Durant''] [draftPick ''LeBron''])"
proof -
  have a: "asciiLowerCase (p_name (player ''LeBron James'')) =
          [] @ asciiLowerCase (dp_playerName (draftPick ''LeBron'')) @ lit '' james''"
    by (simp add: player_def draftPick_def asciiLowerCase_def lit_def)
  then have b: "\<exists>u v. asciiLowerCase (p_name (player ''LeBron James'')) =
          u @ asciiLowerCase (dp_playerName (draftPick ''LeBron'')) @ v" by blast
  have c: "p_name (player ''LeBron James'') \<noteq> dp_playerName (draftPick ''LeBron'')"
    by (simp add: player_def draftPick_def lit_def)
  have d: "player ''LeBron James'' \<notin> set (availablePlayers asciiLowerCase [player ''LeBron James''] [draftPick ''LeBron''])"
    using available_iff [of "player ''LeBron James''" asciiLowerCase "[player ''LeBron James'']" "[draftPick ''LeBron'']"] b
    by simp
  have n1: "\<not> includes_js (asciiLowerCase (dp_playerName (draftPick ''LeBron''))) (asciiLowerCase (p_name (player ''Kevin Durant'')))"
    by (simp add: player_def draftPick_def asciiLowerCase_def lit_def)
  have n2: "\<not> includes_js (asciiLowerCase (p_name (player ''Kevin Durant''))) (asciiLowerCase (dp_playerName (draftPick ''LeBron'')))"
    by (simp add: player_def draftPick_def asciiLowerCase_def lit_def)
  have e: "player ''Kevin Durant'' \<in> set (availablePlayers asciiLowerCase [player ''Kevin Durant''] [draftPick ''LeBron''])"
    using available_iff [of "player ''Kevin Durant''" asciiLowerCase "[player ''Kevin Durant'']" "[draftPick ''LeBron'']"]
      n1 n2 by (simp add: includes_js_iff)
  from b c d e show ?thesis by blast
qed


end
